theory Spec2Isabelle
  imports Complex_Main "HOL-Library.Word" "HOL-Library.AList" "HOL-Library.Multiset"
begin

section \<open>Data model of \<^verbatim>\<open>backend/server.py\<close>\<close>

text \<open>
  Byte strings are lists of octets, text is \<^typ>\<open>string\<close>.  A \<^verbatim>\<open>datetime\<close> is the
  number of microseconds since 0001-01-01T00:00:00 (the smallest value Python can
  represent), a \<^verbatim>\<open>timedelta\<close> is a signed number of microseconds.
\<close>

type_synonym bytes = "8 word list"
type_synonym datetime = int
type_synonym timedelta = int

text \<open>
  Failures are values.  \<open>HTTPException\<close> is the exception the handlers raise on purpose,
  with its status code and detail string; \<open>OverflowError\<close> is what Python raises when a
  date computation leaves the representable range.
\<close>

datatype error = HTTPException (status_code: nat) (detail: string) | OverflowError

text \<open>The pydantic models (lines 42--92).  Field names that would clash are prefixed.\<close>

record User =
  user_ident :: string
  username :: string
  email :: string
  hashed_password :: string
  user_created_at :: datetime

record UserCreate =
  uc_username :: string
  uc_email :: string
  uc_password :: string

record UserLogin =
  ul_username :: string
  ul_password :: string

record UserResponse =
  ur_id :: string
  ur_username :: string
  ur_email :: string
  ur_created_at :: datetime

record 'tok Token =
  access_token :: 'tok
  token_type :: string
  token_user :: UserResponse

record ImageItem =
  image_id :: string
  user_id :: string
  filename :: string
  caption :: string
  is_private :: bool
  image_data :: string
  content_type :: string
  file_size :: nat
  created_at :: datetime

record ImageResponse =
  resp_id :: string
  resp_filename :: string
  resp_caption :: string
  resp_is_private :: bool
  resp_image_data :: string
  resp_content_type :: string
  resp_file_size :: nat
  resp_created_at :: datetime

text \<open>
  \<^verbatim>\<open>ImageResponse(**image)\<close>: the response model keeps every field of the stored
  document except the owner id.
\<close>

definition ImageResponse_of :: "ImageItem \<Rightarrow> ImageResponse" where
  "ImageResponse_of img =
     \<lparr> resp_id = image_id img,
       resp_filename = filename img,
       resp_caption = caption img,
       resp_is_private = is_private img,
       resp_image_data = image_data img,
       resp_content_type = content_type img,
       resp_file_size = file_size img,
       resp_created_at = created_at img \<rparr>"

text \<open>
  The document store: the two collections \<^verbatim>\<open>db.users\<close> and \<^verbatim>\<open>db.images\<close>, each a
  sequence of documents in insertion order.
\<close>

record db =
  users :: "User list"
  images :: "ImageItem list"

text \<open>The part of Starlette's \<^verbatim>\<open>UploadFile\<close> the handler reads.  The content type is
  the header of the multipart section and may be absent.\<close>

record UploadFile =
  file_filename :: string
  file_content_type :: "string option"
  file_bytes :: bytes

section \<open>The store operations the handlers call\<close>

text \<open>\<^verbatim>\<open>insert_one\<close> appends a document.\<close>

definition insert_one :: "'a \<Rightarrow> 'a list \<Rightarrow> 'a list" where
  "insert_one doc coll = coll @ [doc]"

text \<open>
  The store encodes a document as BSON, which holds a datetime as whole milliseconds: the
  microseconds below a millisecond are dropped when a document is written.  \<open>bson_image\<close>
  and \<open>bson_user\<close> are the documents as the store keeps them.
\<close>

definition bson_datetime :: "datetime \<Rightarrow> datetime" where
  "bson_datetime t = t - t mod 1000"

definition bson_image :: "ImageItem \<Rightarrow> ImageItem" where
  "bson_image doc = doc\<lparr>created_at := bson_datetime (created_at doc)\<rparr>"

definition bson_user :: "User \<Rightarrow> User" where
  "bson_user doc = doc\<lparr>user_created_at := bson_datetime (user_created_at doc)\<rparr>"

text \<open>\<^verbatim>\<open>find_one(query)\<close>: the first document matching the query, if any.\<close>

definition find_one :: "('a \<Rightarrow> bool) \<Rightarrow> 'a list \<Rightarrow> 'a option" where
  "find_one query coll = List.find query coll"

text \<open>
  \<^verbatim>\<open>find(query).sort("created_at", -1).to_list(n)\<close>: the matching documents, by
  creation time descending, at most \<open>n\<close> of them.  The store does not promise an order
  among documents with equal keys; the model keeps their insertion order.
\<close>

definition find_sorted_desc :: "(ImageItem \<Rightarrow> bool) \<Rightarrow> nat \<Rightarrow> ImageItem list \<Rightarrow> ImageItem list" where
  "find_sorted_desc query n coll =
     take n (sort_key (\<lambda>d. - created_at d) (filter query coll))"

text \<open>
  \<^verbatim>\<open>delete_one(query)\<close> removes the first matching document and reports how many
  documents it removed (0 or 1).
\<close>

fun delete_one :: "('a \<Rightarrow> bool) \<Rightarrow> 'a list \<Rightarrow> 'a list \<times> nat" where
  "delete_one query [] = ([], 0)"
| "delete_one query (d # ds) =
     (if query d then (ds, 1)
      else (case delete_one query ds of (ds', deleted_count) \<Rightarrow> (d # ds', deleted_count)))"

section \<open>The image library as the code uses it\<close>

text \<open>
  Pillow is an external collaborator.  The code reads an image's \<^verbatim>\<open>mode\<close> and
  \<^verbatim>\<open>size\<close> and calls \<^verbatim>\<open>Image.open\<close>, \<^verbatim>\<open>convert\<close>, \<^verbatim>\<open>thumbnail\<close> and
  \<^verbatim>\<open>save\<close>; each call either returns or raises an exception, modelled as \<open>Inl\<close> of the
  exception's message.  \<^verbatim>\<open>base64.b64encode(..).decode()\<close> never raises.  The image type
  \<open>'img\<close> is left open.
\<close>

datatype resampling = NEAREST | BOX | BILINEAR | HAMMING | BICUBIC | LANCZOS

record 'img imaging =
  Image_open :: "bytes \<Rightarrow> string + 'img"
  img_mode :: "'img \<Rightarrow> string"
  img_size :: "'img \<Rightarrow> nat \<times> nat"
  img_convert :: "'img \<Rightarrow> string \<Rightarrow> string + 'img"
  img_thumbnail :: "'img \<Rightarrow> nat \<times> nat \<Rightarrow> resampling \<Rightarrow> string + 'img"
  img_save :: "'img \<Rightarrow> string \<Rightarrow> nat \<Rightarrow> string + bytes"
  b64encode :: "bytes \<Rightarrow> string"

section \<open>\<^verbatim>\<open>process_image\<close> (lines 131--165)\<close>

text \<open>Lines 137--139: convert to RGB when the mode is \<^verbatim>\<open>"RGBA"\<close> or \<^verbatim>\<open>"P"\<close>.\<close>

definition convert_if_necessary :: "'img imaging \<Rightarrow> 'img \<Rightarrow> string + 'img" where
  "convert_if_necessary L img =
     (if img_mode L img \<in> set [''RGBA'', ''P'']
      then img_convert L img ''RGB''
      else Inr img)"

text \<open>Lines 141--144: shrink in place when either side exceeds 1920 x 1080.\<close>

definition max_size :: "nat \<times> nat" where
  "max_size = (1920, 1080)"

definition resize_if_too_large :: "'img imaging \<Rightarrow> 'img \<Rightarrow> string + 'img" where
  "resize_if_too_large L img =
     (if fst (img_size L img) > fst max_size \<or> snd (img_size L img) > snd max_size
      then img_thumbnail L img max_size LANCZOS
      else Inr img)"

text \<open>Lines 148--155: the format map and its default.\<close>

definition format_map :: "(string \<times> string) list" where
  "format_map =
     [(''image/jpeg'', ''JPEG''),
      (''image/jpg'', ''JPEG''),
      (''image/png'', ''PNG''),
      (''image/gif'', ''GIF''),
      (''image/webp'', ''WEBP'')]"

definition format_name_of :: "string \<Rightarrow> string" where
  "format_name_of ct = (case map_of format_map ct of Some f \<Rightarrow> f | None \<Rightarrow> ''JPEG'')"

text \<open>The body of the \<^verbatim>\<open>try\<close> block: the first exception ends it.\<close>

definition process_image_try :: "'img imaging \<Rightarrow> bytes \<Rightarrow> string \<Rightarrow> string + (string \<times> nat)" where
  "process_image_try L file_data ct =
     (case Image_open L file_data of
        Inl e \<Rightarrow> Inl e
      | Inr img \<Rightarrow>
     (case convert_if_necessary L img of
        Inl e \<Rightarrow> Inl e
      | Inr img1 \<Rightarrow>
     (case resize_if_too_large L img1 of
        Inl e \<Rightarrow> Inl e
      | Inr img2 \<Rightarrow>
     (case img_save L img2 (format_name_of ct) 85 of
        Inl e \<Rightarrow> Inl e
      | Inr processed_data \<Rightarrow>
          Inr (b64encode L processed_data, length processed_data)))))"

text \<open>The \<^verbatim>\<open>except Exception as e\<close> clause turns every exception of the body into an
  \<^verbatim>\<open>HTTPException\<close> with status 400.\<close>

definition process_image :: "'img imaging \<Rightarrow> bytes \<Rightarrow> string \<Rightarrow> error + (string \<times> nat)" where
  "process_image L file_data ct =
     (case process_image_try L file_data ct of
        Inl e \<Rightarrow> Inl (HTTPException 400 (''Invalid image file: '' @ e))
      | Inr r \<Rightarrow> Inr r)"

section \<open>The image handlers (lines 225--280)\<close>

definition allowed_types :: "string list" where
  "allowed_types = [''image/jpeg'', ''image/jpg'', ''image/png'', ''image/gif'', ''image/webp'']"

definition InvalidFileType :: error where
  "InvalidFileType =
     HTTPException 400 ''Invalid file type. Only JPEG, PNG, GIF, and WebP are allowed.''"

definition FileTooLarge :: error where
  "FileTooLarge = HTTPException 400 ''File too large. Maximum size is 10MB.''"

text \<open>
  \<^verbatim>\<open>upload_image\<close>.  \<open>new_id\<close> and \<open>now\<close> stand for the values that \<^verbatim>\<open>uuid.uuid4()\<close> and
  \<^verbatim>\<open>datetime.utcnow()\<close> give the default factories of \<^verbatim>\<open>ImageItem\<close>.  The handler
  returns its result together with the store it leaves behind.
\<close>

definition upload_image ::
  "'img imaging \<Rightarrow> db \<Rightarrow> UploadFile \<Rightarrow> string \<Rightarrow> bool \<Rightarrow> User \<Rightarrow> string \<Rightarrow> datetime
     \<Rightarrow> (error + ImageResponse) \<times> db" where
  "upload_image L d file cap priv current_user new_id now =
     (case file_content_type file of
        None \<Rightarrow> (Inl InvalidFileType, d)
      | Some ct \<Rightarrow>
          if ct \<notin> set allowed_types then (Inl InvalidFileType, d)
          else
            let file_data = file_bytes file in
            if length file_data > 10 * 1024 * 1024 then (Inl FileTooLarge, d)
            else
              (case process_image L file_data ct of
                 Inl e \<Rightarrow> (Inl e, d)
               | Inr (base64_data, processed_size) \<Rightarrow>
                   let image_item =
                         \<lparr> image_id = new_id,
                           user_id = user_ident current_user,
                           filename = file_filename file,
                           caption = cap,
                           is_private = priv,
                           image_data = base64_data,
                           content_type = ct,
                           file_size = processed_size,
                           created_at = now \<rparr>
                   in (Inr (ImageResponse_of image_item),
                       d\<lparr>images := insert_one (bson_image image_item) (images d)\<rparr>)))"

text \<open>\<^verbatim>\<open>get_images\<close>: the query is built from the caller's id and the optional
  \<^verbatim>\<open>private\<close> parameter.\<close>

definition images_query :: "string \<Rightarrow> bool option \<Rightarrow> ImageItem \<Rightarrow> bool" where
  "images_query uid private doc =
     (user_id doc = uid \<and> (case private of None \<Rightarrow> True | Some p \<Rightarrow> is_private doc = p))"

definition get_images :: "db \<Rightarrow> bool option \<Rightarrow> User \<Rightarrow> ImageResponse list" where
  "get_images d private current_user =
     map ImageResponse_of
       (find_sorted_desc (images_query (user_ident current_user) private) 100 (images d))"

text \<open>\<^verbatim>\<open>delete_image\<close>: the store is updated first, the count is inspected afterwards.\<close>

definition delete_query :: "string \<Rightarrow> string \<Rightarrow> ImageItem \<Rightarrow> bool" where
  "delete_query iid uid doc = (image_id doc = iid \<and> user_id doc = uid)"

definition delete_image :: "db \<Rightarrow> string \<Rightarrow> User \<Rightarrow> (error + string) \<times> db" where
  "delete_image d iid current_user =
     (case delete_one (delete_query iid (user_ident current_user)) (images d) of
        (images', deleted_count) \<Rightarrow>
          if deleted_count = 0
          then (Inl (HTTPException 404 ''Image not found''), d\<lparr>images := images'\<rparr>)
          else (Inr ''Image deleted successfully'', d\<lparr>images := images'\<rparr>))"

section \<open>The credential and token service (lines 34--39, 95--109, 168--222)\<close>

text \<open>
  A token payload is a dictionary from claim names to values; the code stores the
  subject (a string) and the expiry (a datetime).  Dictionaries keep insertion order, and
  \<^verbatim>\<open>update\<close> overwrites an existing key in place.
\<close>

datatype claim = Str string | Time datetime

type_synonym payload = "(string \<times> claim) list"

text \<open>
  passlib and PyJWT are external: hashing, verification and signing are parameters.  The
  token type \<open>'tok\<close> is whatever the signer returns.
\<close>

record 'tok security =
  pwd_hash :: "string \<Rightarrow> string"
  pwd_verify :: "string \<Rightarrow> string \<Rightarrow> bool"
  jwt_encode :: "payload \<Rightarrow> string \<Rightarrow> string \<Rightarrow> 'tok"

definition SECRET_KEY :: string where
  "SECRET_KEY = ''your-secret-key-here-change-in-production''"

definition ALGORITHM :: string where
  "ALGORITHM = ''HS256''"

definition ACCESS_TOKEN_EXPIRE_MINUTES :: int where
  "ACCESS_TOKEN_EXPIRE_MINUTES = 30"

text \<open>\<^verbatim>\<open>timedelta(minutes=m)\<close> in microseconds.\<close>

definition timedelta_minutes :: "int \<Rightarrow> timedelta" where
  "timedelta_minutes m = m * 60 * 1000000"

text \<open>
  \<^verbatim>\<open>datetime.max\<close> is 9999-12-31T23:59:59.999999, day 3652059 of the proleptic
  calendar; \<^verbatim>\<open>datetime + timedelta\<close> raises \<^verbatim>\<open>OverflowError\<close> outside
  \<^verbatim>\<open>[datetime.min, datetime.max]\<close>.
\<close>

definition datetime_max :: datetime where
  "datetime_max = 3652059 * 86400000000 - 1"

definition datetime_add :: "datetime \<Rightarrow> timedelta \<Rightarrow> error + datetime" where
  "datetime_add t delta =
     (if 0 \<le> t + delta \<and> t + delta \<le> datetime_max then Inr (t + delta) else Inl OverflowError)"

text \<open>
  The truth value Python gives \<^verbatim>\<open>expires_delta\<close> in \<^verbatim>\<open>if expires_delta:\<close>.
  \<^verbatim>\<open>None\<close> is false, and so is a \<^verbatim>\<open>timedelta\<close> equal to \<^verbatim>\<open>timedelta(0)\<close>.
\<close>

definition truthy :: "timedelta option \<Rightarrow> bool" where
  "truthy expires_delta = (case expires_delta of None \<Rightarrow> False | Some delta \<Rightarrow> delta \<noteq> 0)"

text \<open>\<^verbatim>\<open>create_access_token\<close>; \<open>now\<close> is the value of \<^verbatim>\<open>datetime.utcnow()\<close>.\<close>

definition create_access_token ::
  "'tok security \<Rightarrow> datetime \<Rightarrow> payload \<Rightarrow> timedelta option \<Rightarrow> error + 'tok" where
  "create_access_token S now data expires_delta =
     (let to_encode = data;
          expire = (if truthy expires_delta
                    then (case expires_delta of
                            Some delta \<Rightarrow> datetime_add now delta
                          | None \<Rightarrow> datetime_add now (timedelta_minutes 15))
                    else datetime_add now (timedelta_minutes 15))
      in case expire of
           Inl e \<Rightarrow> Inl e
         | Inr t \<Rightarrow> Inr (jwt_encode S (AList.update ''exp'' (Time t) to_encode) SECRET_KEY ALGORITHM))"

definition UserResponse_of :: "User \<Rightarrow> UserResponse" where
  "UserResponse_of u =
     \<lparr> ur_id = user_ident u, ur_username = username u, ur_email = email u,
       ur_created_at = user_created_at u \<rparr>"

text \<open>
  \<^verbatim>\<open>register\<close>.  \<open>new_id\<close> and \<open>created\<close> are what the default factories of \<^verbatim>\<open>User\<close>
  produce; \<open>now\<close> is the later clock reading inside \<^verbatim>\<open>create_access_token\<close>.
\<close>

definition register ::
  "'tok security \<Rightarrow> db \<Rightarrow> UserCreate \<Rightarrow> string \<Rightarrow> datetime \<Rightarrow> datetime
     \<Rightarrow> (error + 'tok Token) \<times> db" where
  "register S d user_data new_id created now =
     (case find_one (\<lambda>u. username u = uc_username user_data \<or> email u = uc_email user_data)
             (users d) of
        Some existing_user \<Rightarrow>
          (Inl (HTTPException 400 ''Username or email already registered''), d)
      | None \<Rightarrow>
          let user = \<lparr> user_ident = new_id,
                       username = uc_username user_data,
                       email = uc_email user_data,
                       hashed_password = pwd_hash S (uc_password user_data),
                       user_created_at = created \<rparr>;
              d' = d\<lparr>users := insert_one (bson_user user) (users d)\<rparr>;
              access_token_expires = timedelta_minutes ACCESS_TOKEN_EXPIRE_MINUTES
          in case create_access_token S now [(''sub'', Str (username user))]
                    (Some access_token_expires) of
               Inl e \<Rightarrow> (Inl e, d')
             | Inr tok \<Rightarrow>
                 (Inr \<lparr> access_token = tok, token_type = ''bearer'',
                        token_user = UserResponse_of user \<rparr>, d'))"

text \<open>\<^verbatim>\<open>login\<close> (the \<^verbatim>\<open>WWW-Authenticate\<close> header of the 401 is not modelled).\<close>

definition login :: "'tok security \<Rightarrow> db \<Rightarrow> UserLogin \<Rightarrow> datetime \<Rightarrow> error + 'tok Token" where
  "login S d user_data now =
     (case find_one (\<lambda>u. username u = ul_username user_data) (users d) of
        None \<Rightarrow> Inl (HTTPException 401 ''Incorrect username or password'')
      | Some user \<Rightarrow>
          if \<not> pwd_verify S (ul_password user_data) (hashed_password user)
          then Inl (HTTPException 401 ''Incorrect username or password'')
          else
            let access_token_expires = timedelta_minutes ACCESS_TOKEN_EXPIRE_MINUTES
            in case create_access_token S now [(''sub'', Str (username user))]
                      (Some access_token_expires) of
                 Inl e \<Rightarrow> Inl e
               | Inr tok \<Rightarrow>
                   Inr \<lparr> access_token = tok, token_type = ''bearer'',
                         token_user = UserResponse_of user \<rparr>)"

section \<open>Vocabulary of the specification\<close>

text \<open>
  Pillow's colour modes that carry an alpha channel are \<^verbatim>\<open>RGBA\<close>, \<^verbatim>\<open>LA\<close>, \<^verbatim>\<open>PA\<close>,
  \<^verbatim>\<open>RGBa\<close> and \<^verbatim>\<open>La\<close>; the palette modes are \<^verbatim>\<open>P\<close> and \<^verbatim>\<open>PA\<close>.  This is the
  specification's "has an alpha channel or is palette-based".
\<close>

definition has_alpha_or_palette :: "string \<Rightarrow> bool" where
  "has_alpha_or_palette m = (m \<in> set [''RGBA'', ''LA'', ''PA'', ''RGBa'', ''La'', ''P''])"

text \<open>Both dimensions of a size fit within a bounding box.\<close>

definition fits_within :: "nat \<times> nat \<Rightarrow> nat \<times> nat \<Rightarrow> bool" where
  "fits_within sz box = (fst sz \<le> fst box \<and> snd sz \<le> snd box)"

text \<open>
  A new size \<open>(w', h')\<close> keeps the aspect ratio of \<open>(w, h)\<close> within rounding: the cross
  products differ by less than one pixel of the longer original side, which is what
  rounding one of the two scaled sides to a whole pixel can cause.
\<close>

definition aspect_within_rounding :: "nat \<times> nat \<Rightarrow> nat \<times> nat \<Rightarrow> bool" where
  "aspect_within_rounding old new =
     (\<bar>int (fst new) * int (snd old) - int (snd new) * int (fst old)\<bar>
        < int (max (fst old) (snd old)))"

text \<open>
  What the code relies on from the library: a decoded image has positive dimensions,
  \<^verbatim>\<open>convert\<close> changes the mode and nothing else, and \<^verbatim>\<open>thumbnail\<close> shrinks an
  image with positive dimensions into a box with positive dimensions, keeping mode and
  aspect ratio.
\<close>

definition imaging_contract :: "'img imaging \<Rightarrow> bool" where
  "imaging_contract L =
     ((\<forall>data img. Image_open L data = Inr img \<longrightarrow>
          0 < fst (img_size L img) \<and> 0 < snd (img_size L img)) \<and>
      (\<forall>img m img'. img_convert L img m = Inr img' \<longrightarrow>
          img_mode L img' = m \<and> img_size L img' = img_size L img) \<and>
      (\<forall>img box r img'. img_thumbnail L img box r = Inr img' \<longrightarrow>
          img_mode L img' = img_mode L img) \<and>
      (\<forall>img box r img'. img_thumbnail L img box r = Inr img' \<longrightarrow>
          0 < fst (img_size L img) \<longrightarrow> 0 < snd (img_size L img) \<longrightarrow>
          0 < fst box \<longrightarrow> 0 < snd box \<longrightarrow>
          fits_within (img_size L img') box \<and>
          aspect_within_rounding (img_size L img) (img_size L img')))"

text \<open>Image ids are unique in the store (they are fresh UUIDs).\<close>

definition ids_unique :: "db \<Rightarrow> bool" where
  "ids_unique d = distinct (map image_id (images d))"

section \<open>A reference instance of the library\<close>

text \<open>
  For evaluating the model on concrete inputs: an image is its mode and its size, and an
  encoded image is a five-byte header (mode code, width and height as two bytes each).
  The size arithmetic of \<^verbatim>\<open>thumbnail\<close> follows Pillow's \<^verbatim>\<open>preserve_aspect_ratio\<close>, in
  exact rational arithmetic where Pillow computes in floating point; on an exact tie
  between rounding down and rounding up the two may differ by one pixel.
\<close>

type_synonym ref_image = "string \<times> nat \<times> nat"

definition ref_modes :: "string list" where
  "ref_modes = [''RGB'', ''RGBA'', ''P'', ''L'', ''LA'']"

definition ref_open :: "bytes \<Rightarrow> string + ref_image" where
  "ref_open data =
     (case data of
        [m, w1, w0, h1, h0] \<Rightarrow>
          (let w = 256 * unat w1 + unat w0; h = 256 * unat h1 + unat h0
           in if unat m < length ref_modes \<and> 0 < w \<and> 0 < h
              then Inr (ref_modes ! unat m, w, h)
              else Inl ''cannot identify image file'')
      | _ \<Rightarrow> Inl ''cannot identify image file'')"

text \<open>\<^verbatim>\<open>max(min(math.floor(number), math.ceil(number), key=key), 1)\<close>\<close>

definition round_aspect :: "rat \<Rightarrow> (int \<Rightarrow> rat) \<Rightarrow> int" where
  "round_aspect number key =
     max (if key \<lfloor>number\<rfloor> \<le> key \<lceil>number\<rceil> then \<lfloor>number\<rfloor> else \<lceil>number\<rceil>) 1"

definition thumbnail_size :: "nat \<times> nat \<Rightarrow> nat \<times> nat \<Rightarrow> string + nat \<times> nat" where
  "thumbnail_size box sz =
     (case (box, sz) of ((x, y), (w, h)) \<Rightarrow>
        if x \<ge> w \<and> y \<ge> h then Inr (w, h)
        else if h = 0 \<or> y = 0 then Inl ''division by zero''
        else
          let aspect = rat_of_nat w / rat_of_nat h
          in if rat_of_nat x / rat_of_nat y \<ge> aspect
             then Inr (nat (round_aspect (rat_of_nat y * aspect)
                              (\<lambda>n. \<bar>aspect - rat_of_int n / rat_of_nat y\<bar>)), y)
             else Inr (x, nat (round_aspect (rat_of_nat x / aspect)
                              (\<lambda>n. if n = 0 then 0 else \<bar>aspect - rat_of_nat x / rat_of_int n\<bar>))))"

definition ref_thumbnail :: "ref_image \<Rightarrow> nat \<times> nat \<Rightarrow> resampling \<Rightarrow> string + ref_image" where
  "ref_thumbnail img box r =
     (case thumbnail_size box (snd img) of Inl e \<Rightarrow> Inl e | Inr sz \<Rightarrow> Inr (fst img, sz))"

text \<open>
  The inverse of \<open>ref_open\<close>.  As in Pillow, the JPEG writer refuses the modes with an
  alpha channel or a palette; the other formats take every mode of the reference instance.
\<close>

definition ref_save :: "ref_image \<Rightarrow> string \<Rightarrow> nat \<Rightarrow> string + bytes" where
  "ref_save img fmt quality =
     (case img of (m, w, h) \<Rightarrow>
        if fmt = ''JPEG'' \<and> m \<notin> set [''RGB'', ''L'']
        then Inl (''cannot write mode '' @ m @ '' as JPEG'')
        else
          (case List.find (\<lambda>i. ref_modes ! i = m) [0..<length ref_modes] of
             None \<Rightarrow> Inl ''cannot write mode''
           | Some i \<Rightarrow>
               Inr [of_nat i, of_nat (w div 256), of_nat (w mod 256),
                    of_nat (h div 256), of_nat (h mod 256)]))"

text \<open>Base64 with padding, as \<^verbatim>\<open>base64.b64encode\<close> produces it.\<close>

definition b64_char :: "nat \<Rightarrow> char" where
  "b64_char n = (''ABCDEFGHIJKLMNOPQRSTUVWXYZabcdefghijklmnopqrstuvwxyz0123456789+/'') ! n"

fun b64_encode :: "nat list \<Rightarrow> string" where
  "b64_encode [] = []"
| "b64_encode [a] = [b64_char (a div 4), b64_char ((a mod 4) * 16), CHR ''='', CHR ''='']"
| "b64_encode [a, b] =
     [b64_char (a div 4), b64_char ((a mod 4) * 16 + b div 16),
      b64_char ((b mod 16) * 4), CHR ''='']"
| "b64_encode (a # b # c # rest) =
     [b64_char (a div 4), b64_char ((a mod 4) * 16 + b div 16),
      b64_char ((b mod 16) * 4 + c div 64), b64_char (c mod 64)] @ b64_encode rest"

definition ref_imaging :: "ref_image imaging" where
  "ref_imaging =
     \<lparr> Image_open = ref_open,
       img_mode = fst,
       img_size = snd,
       img_convert = (\<lambda>img m. Inr (m, snd img)),
       img_thumbnail = ref_thumbnail,
       img_save = ref_save,
       b64encode = (\<lambda>data. b64_encode (map unat data)) \<rparr>"

text \<open>A signer that returns the payload it was given, so that the claims of a token can
  be read off; hashing is the identity.\<close>

definition ref_security :: "payload security" where
  "ref_security =
     \<lparr> pwd_hash = (\<lambda>p. p),
       pwd_verify = (\<lambda>p h. p = h),
       jwt_encode = (\<lambda>claims key alg. claims) \<rparr>"

section \<open>Example data\<close>

text \<open>Two users and a store with three images, two of them Alice's.\<close>

definition alice :: User where
  "alice = \<lparr> user_ident = ''u-alice'', username = ''alice'', email = ''alice@x.com'',
             hashed_password = ''Pw123!'', user_created_at = 63900000000000000 \<rparr>"

definition bob :: User where
  "bob = \<lparr> user_ident = ''u-bob'', username = ''bob'', email = ''bob@x.com'',
           hashed_password = ''hunter2'', user_created_at = 63900000000001000 \<rparr>"

definition example_image :: "string \<Rightarrow> string \<Rightarrow> bool \<Rightarrow> datetime \<Rightarrow> ImageItem" where
  "example_image iid uid priv t =
     \<lparr> image_id = iid, user_id = uid, filename = ''a.png'', caption = ''test'',
       is_private = priv, image_data = ''AAAKAAo='', content_type = ''image/png'',
       file_size = 5, created_at = t \<rparr>"

definition example_db :: db where
  "example_db =
     \<lparr> users = [alice, bob],
       images = [example_image ''i1'' ''u-alice'' False 10000,
                 example_image ''i2'' ''u-bob'' False 20000,
                 example_image ''i3'' ''u-alice'' True 30000] \<rparr>"

text \<open>A store in which Alice owns 101 images, created one millisecond apart.\<close>

definition crowded_db :: db where
  "crowded_db =
     \<lparr> users = [alice],
       images = map (\<lambda>i. example_image (replicate i (CHR ''x'')) ''u-alice'' False (1000 * int i))
                  [0..<101] \<rparr>"

definition example_file :: "string option \<Rightarrow> bytes \<Rightarrow> UploadFile" where
  "example_file ct data = \<lparr> file_filename = ''a.png'', file_content_type = ct, file_bytes = data \<rparr>"

section \<open>Facts about the store operations\<close>

lemma delete_one_cases:
  "delete_one q xs = (ys, n) \<Longrightarrow>
     (n = 0 \<and> ys = xs \<and> (\<forall>x\<in>set xs. \<not> q x)) \<or>
     (n = 1 \<and> (\<exists>pre x post. xs = pre @ x # post \<and> q x \<and> (\<forall>p\<in>set pre. \<not> q p) \<and> ys = pre @ post))"
proof (induction xs arbitrary: ys n)
  case Nil
  then show ?case by simp
next
  case (Cons a xs)
  show ?case
  proof (cases "q a")
    case True
    with Cons.prems have "n = 1" "ys = xs" by auto
    with True have "a # xs = [] @ a # xs \<and> q a \<and> (\<forall>p\<in>set []. \<not> q p) \<and> ys = [] @ xs" by simp
    then show ?thesis using \<open>n = 1\<close> by blast
  next
    case False
    obtain zs m where r: "delete_one q xs = (zs, m)" by (cases "delete_one q xs")
    with False Cons.prems have e: "ys = a # zs" "n = m" by auto
    from Cons.IH[OF r] show ?thesis
    proof
      assume "m = 0 \<and> zs = xs \<and> (\<forall>x\<in>set xs. \<not> q x)"
      with False e show ?thesis by auto
    next
      assume "m = 1 \<and> (\<exists>pre x post. xs = pre @ x # post \<and> q x \<and> (\<forall>p\<in>set pre. \<not> q p) \<and> zs = pre @ post)"
      then obtain pre x post where h: "m = 1" "xs = pre @ x # post" "q x" "\<forall>p\<in>set pre. \<not> q p" "zs = pre @ post"
        by blast
      with False e have "a # xs = (a # pre) @ x # post \<and> q x \<and> (\<forall>p\<in>set (a # pre). \<not> q p) \<and> ys = (a # pre) @ post"
        by simp
      then show ?thesis using h(1) e(2) by blast
    qed
  qed
qed

lemma delete_one_no_match: "(\<forall>x\<in>set xs. \<not> q x) \<Longrightarrow> delete_one q xs = (xs, 0)"
  by (induction xs) auto

lemma delete_image_result:
  "delete_image d iid u = (res, d') \<Longrightarrow>
     (res = Inl (HTTPException 404 ''Image not found'') \<and> d' = d \<and>
        (\<forall>x\<in>set (images d). \<not> delete_query iid (user_ident u) x)) \<or>
     (res = Inr ''Image deleted successfully'' \<and>
        (\<exists>pre x post. images d = pre @ x # post \<and> delete_query iid (user_ident u) x \<and>
            (\<forall>p\<in>set pre. \<not> delete_query iid (user_ident u) p) \<and>
            d' = d\<lparr>images := pre @ post\<rparr>))"
proof -
  assume a: "delete_image d iid u = (res, d')"
  obtain ys n where r: "delete_one (delete_query iid (user_ident u)) (images d) = (ys, n)"
    by (cases "delete_one (delete_query iid (user_ident u)) (images d)")
  from delete_one_cases[OF r] show ?thesis
  proof
    assume "n = 0 \<and> ys = images d \<and> (\<forall>x\<in>set (images d). \<not> delete_query iid (user_ident u) x)"
    with a r show ?thesis by (auto simp: delete_image_def)
  next
    assume "n = 1 \<and> (\<exists>pre x post. images d = pre @ x # post \<and> delete_query iid (user_ident u) x \<and>
       (\<forall>p\<in>set pre. \<not> delete_query iid (user_ident u) p) \<and> ys = pre @ post)"
    with a r show ?thesis by (auto simp: delete_image_def)
  qed
qed

lemma unique_after_removal:
  assumes "distinct (map image_id (pre @ x # post))"
  shows "\<forall>y\<in>set (pre @ post). image_id y \<noteq> image_id x"
  using assms by (auto simp: image_iff)

lemma find_sorted_desc_set:
  "set (find_sorted_desc q n coll) \<subseteq> {doc \<in> set coll. q doc}"
  unfolding find_sorted_desc_def using set_take_subset[of n "sort_key (\<lambda>d. - created_at d) (filter q coll)"]
  by auto

lemma find_sorted_desc_sorted:
  "sorted_wrt (\<lambda>a b. created_at a \<ge> created_at b) (find_sorted_desc q n coll)"
proof -
  have "sorted (map (\<lambda>d. - created_at d) (sort_key (\<lambda>d. - created_at d) (filter q coll)))"
    by (rule sorted_sort_key)
  then have "sorted_wrt (\<lambda>a b. created_at a \<ge> created_at b) (sort_key (\<lambda>d. - created_at d) (filter q coll))"
    by (simp add: sorted_map)
  then show ?thesis unfolding find_sorted_desc_def by (rule sorted_wrt_take)
qed

lemma find_sorted_desc_all:
  "length (filter q coll) \<le> n \<Longrightarrow> set (find_sorted_desc q n coll) = {doc \<in> set coll. q doc}"
  by (auto simp: find_sorted_desc_def)

lemma find_sorted_desc_length:
  "length (find_sorted_desc q n coll) = min n (length (filter q coll))"
  by (simp add: find_sorted_desc_def min.commute)

lemma find_sorted_desc_mset:
  "mset (find_sorted_desc q n coll) + mset (drop n (sort_key (\<lambda>d. - created_at d) (filter q coll)))
     = mset (filter q coll)"
proof -
  let ?xs = "sort_key (\<lambda>d. - created_at d) (filter q coll)"
  have "mset (take n ?xs) + mset (drop n ?xs) = mset (take n ?xs @ drop n ?xs)"
    by (simp only: mset_append)
  also have "\<dots> = mset ?xs" by (simp only: append_take_drop_id)
  also have "\<dots> = mset (filter q coll)" by (rule mset_sort)
  finally show ?thesis unfolding find_sorted_desc_def .
qed

lemma find_sorted_desc_newest:
  assumes "x \<in> set (drop n (sort_key (\<lambda>d. - created_at d) (filter q coll)))"
    and "y \<in> set (find_sorted_desc q n coll)"
  shows "created_at x \<le> created_at y"
proof -
  let ?xs = "sort_key (\<lambda>d. - created_at d) (filter q coll)"
  have "sorted (map (\<lambda>d. - created_at d) ?xs)" by (rule sorted_sort_key)
  then have "sorted_wrt (\<lambda>a b. created_at a \<ge> created_at b) ?xs"
    by (simp add: sorted_map)
  then have "sorted_wrt (\<lambda>a b. created_at a \<ge> created_at b) (take n ?xs @ drop n ?xs)"
    by (simp only: append_take_drop_id)
  then have "\<forall>a\<in>set (take n ?xs). \<forall>b\<in>set (drop n ?xs). created_at a \<ge> created_at b"
    unfolding sorted_wrt_append by blast
  with assms show ?thesis unfolding find_sorted_desc_def by blast
qed

lemma images_query_explicit:
  "images_query uid priv = (\<lambda>doc. user_id doc = uid \<and> (\<forall>p. priv = Some p \<longrightarrow> is_private doc = p))"
  by (rule ext) (cases priv; simp add: images_query_def)

lemma find_one_SomeD: "find_one P xs = Some x \<Longrightarrow> P x \<and> x \<in> set xs"
  by (auto simp: find_one_def find_Some_iff)

section \<open>Facts about the pipeline\<close>

lemma process_image_try_Inr:
  "process_image_try L data ct = Inr (s, n) \<Longrightarrow>
     \<exists>img img1 img2 processed.
        Image_open L data = Inr img \<and> convert_if_necessary L img = Inr img1 \<and>
        resize_if_too_large L img1 = Inr img2 \<and>
        img_save L img2 (format_name_of ct) 85 = Inr processed \<and>
        s = b64encode L processed \<and> n = length processed"
  by (auto simp: process_image_try_def split: sum.splits)

lemma process_image_Inr:
  "process_image L data ct = Inr (s, n) \<Longrightarrow>
     \<exists>img img1 img2 processed.
        Image_open L data = Inr img \<and> convert_if_necessary L img = Inr img1 \<and>
        resize_if_too_large L img1 = Inr img2 \<and>
        img_save L img2 (format_name_of ct) 85 = Inr processed \<and>
        s = b64encode L processed \<and> n = length processed"
  by (rule process_image_try_Inr) (auto simp: process_image_def split: sum.splits)

lemma upload_image_Inr:
  "upload_image L d upl cap priv u new_id now = (Inr resp, d') \<Longrightarrow>
     \<exists>ct s n item.
        file_content_type upl = Some ct \<and> ct \<in> set allowed_types \<and>
        length (file_bytes upl) \<le> 10 * 1024 * 1024 \<and>
        process_image L (file_bytes upl) ct = Inr (s, n) \<and>
        item = \<lparr> image_id = new_id, user_id = user_ident u, filename = file_filename upl,
                 caption = cap, is_private = priv, image_data = s, content_type = ct,
                 file_size = n, created_at = now \<rparr> \<and>
        resp = ImageResponse_of item \<and> d' = d\<lparr>images := images d @ [bson_image item]\<rparr>"
  by (auto simp: upload_image_def insert_one_def Let_def split: option.splits if_splits sum.splits prod.splits)

section \<open>The reference library meets the library contract\<close>

lemma round_aspect_bounds:
  fixes q :: rat
  assumes "0 < q" "q \<le> of_int b" "1 \<le> b"
  shows "1 \<le> round_aspect q key" "round_aspect q key \<le> b" "\<bar>of_int (round_aspect q key) - q\<bar> < 1"
proof -
  have f1: "of_int \<lfloor>q\<rfloor> \<le> q" "q < of_int \<lfloor>q\<rfloor> + 1" by linarith+
  have c1: "q \<le> of_int \<lceil>q\<rceil>" "of_int \<lceil>q\<rceil> < q + 1" by linarith+
  have cb: "\<lceil>q\<rceil> \<le> b" using assms(2) by (simp add: ceiling_le)
  have fc: "\<lfloor>q\<rfloor> \<le> \<lceil>q\<rceil>" by (simp add: floor_le_ceiling)
  have f0: "0 \<le> \<lfloor>q\<rfloor>" using assms(1) by simp
  have c0: "1 \<le> \<lceil>q\<rceil>" using assms(1) by simp
  show "1 \<le> round_aspect q key" by (simp add: round_aspect_def)
  have fb: "\<lfloor>q\<rfloor> \<le> b" using cb fc by (rule order_trans[rotated])
  show "round_aspect q key \<le> b" using cb fb assms(3) by (simp add: round_aspect_def)
  show "\<bar>of_int (round_aspect q key) - q\<bar> < 1"
  proof (cases "key \<lfloor>q\<rfloor> \<le> key \<lceil>q\<rceil>")
    case True
    show ?thesis
    proof (cases "1 \<le> \<lfloor>q\<rfloor>")
      case t: True
      with True have "round_aspect q key = \<lfloor>q\<rfloor>" by (simp add: round_aspect_def)
      then show ?thesis using f1 by simp
    next
      case False
      with f0 have z: "\<lfloor>q\<rfloor> = 0" by linarith
      with True have "round_aspect q key = 1" by (simp add: round_aspect_def)
      moreover from z f1 have "q < 1" by simp
      ultimately show ?thesis using assms(1) by simp
    qed
  next
    case False
    with c0 have "round_aspect q key = \<lceil>q\<rceil>" by (simp add: round_aspect_def)
    then show ?thesis using c1 by simp
  qed
qed

lemma cross_from_rat:
  fixes r a b c :: int
  assumes "0 < c" "\<bar>of_int r - (of_int a * of_int b / of_int c :: rat)\<bar> < 1"
  shows "\<bar>r * c - a * b\<bar> < c"
proof -
  have cpos: "(0::rat) < of_int c" using assms(1) by simp
  have "\<bar>of_int r - (of_int a * of_int b / of_int c :: rat)\<bar> * of_int c < 1 * of_int c"
    using assms(2) cpos by (rule mult_strict_right_mono)
  moreover have "\<bar>of_int r - (of_int a * of_int b / of_int c :: rat)\<bar> * of_int c
        = \<bar>(of_int r - (of_int a * of_int b / of_int c)) * of_int c\<bar>"
    using cpos by (simp add: abs_mult)
  moreover have "(of_int r - (of_int a * of_int b / of_int c :: rat)) * of_int c
        = of_int (r * c - a * b)"
    using cpos by (simp add: field_simps)
  ultimately have "\<bar>(of_int (r * c - a * b) :: rat)\<bar> < of_int c" by simp
  then have "(of_int \<bar>r * c - a * b\<bar> :: rat) < of_int c" by simp
  then show ?thesis by (simp only: of_int_less_iff)
qed

lemma thumbnail_size_ok:
  assumes "0 < x" "0 < y" "0 < w" "0 < h" "thumbnail_size (x, y) (w, h) = Inr (w', h')"
  shows "w' \<le> x \<and> h' \<le> y \<and> \<bar>int w' * int h - int h' * int w\<bar> < int (max w h)"
proof (cases "x \<ge> w \<and> y \<ge> h")
  case True
  with assms show ?thesis by (simp add: thumbnail_size_def)
next
  case False
  let ?aspect = "rat_of_nat w / rat_of_nat h"
  have ap: "0 < ?aspect" using assms by simp
  show ?thesis
  proof (cases "rat_of_nat x / rat_of_nat y \<ge> ?aspect")
    case ge: True
    let ?q = "rat_of_nat y * ?aspect"
    let ?k = "\<lambda>n. \<bar>?aspect - rat_of_int n / rat_of_nat y\<bar>"
    let ?r = "round_aspect ?q ?k"
    from False ge assms have e: "w' = nat ?r" "h' = y"
      by (auto simp: thumbnail_size_def Let_def split: if_splits)
    have qpos: "0 < ?q" using assms by simp
    have qx: "?q \<le> of_int (int x)" using ge assms by (simp add: field_simps)
    have x1: "1 \<le> int x" using assms by simp
    note rb = round_aspect_bounds[where key = ?k, OF qpos qx x1]
    have q': "?q = of_int (int y) * of_int (int w) / of_int (int h)" by simp
    from rb(3) have "\<bar>?r * int h - int y * int w\<bar> < int h"
      unfolding q' by (intro cross_from_rat) (use assms in simp_all)
    then have "\<exists>r. w' = nat r \<and> 1 \<le> r \<and> r \<le> int x \<and> \<bar>r * int h - int y * int w\<bar> < int h"
      using e(1) rb(1,2) by blast
    then obtain r where r: "w' = nat r" "1 \<le> r" "r \<le> int x" "\<bar>r * int h - int y * int w\<bar> < int h"
      by blast
    from r(1,2) have "int w' = r" by simp
    with r e(2) show ?thesis by auto
  next
    case lt: False
    let ?q = "rat_of_nat x / ?aspect"
    let ?k = "\<lambda>n. if n = 0 then 0 else \<bar>?aspect - rat_of_nat x / rat_of_int n\<bar>"
    let ?r = "round_aspect ?q ?k"
    from False lt assms have e: "w' = x" "h' = nat ?r"
      by (auto simp: thumbnail_size_def Let_def split: if_splits)
    have qpos: "0 < ?q" using assms by simp
    have qy: "?q \<le> of_int (int y)" using lt assms by (simp add: field_simps)
    have y1: "1 \<le> int y" using assms by simp
    note rb = round_aspect_bounds[where key = ?k, OF qpos qy y1]
    have q': "?q = of_int (int x) * of_int (int h) / of_int (int w)" by simp
    from rb(3) have "\<bar>?r * int w - int x * int h\<bar> < int w"
      unfolding q' by (intro cross_from_rat) (use assms in simp_all)
    then have "\<exists>r. h' = nat r \<and> 1 \<le> r \<and> r \<le> int y \<and> \<bar>r * int w - int x * int h\<bar> < int w"
      using e(2) rb(1,2) by blast
    then obtain r where r: "h' = nat r" "1 \<le> r" "r \<le> int y" "\<bar>r * int w - int x * int h\<bar> < int w"
      by blast
    from r(1,2) have "int h' = r" by simp
    with r e(1) show ?thesis by auto
  qed
qed

lemma ref_imaging_contract: "imaging_contract ref_imaging"
proof -
  have a: "0 < fst (img_size ref_imaging img) \<and> 0 < snd (img_size ref_imaging img)"
    if "Image_open ref_imaging data = Inr img" for data img
    using that
    by (auto simp: ref_imaging_def ref_open_def Let_def split: list.splits if_splits)
  have b: "img_mode ref_imaging img' = m \<and> img_size ref_imaging img' = img_size ref_imaging img"
    if "img_convert ref_imaging img m = Inr img'" for img m img'
    using that by (auto simp: ref_imaging_def)
  have c: "img_mode ref_imaging img' = img_mode ref_imaging img"
    if "img_thumbnail ref_imaging img box r = Inr img'" for img box r img'
    using that by (auto simp: ref_imaging_def ref_thumbnail_def split: sum.splits)
  have d: "fits_within (img_size ref_imaging img') box \<and>
           aspect_within_rounding (img_size ref_imaging img) (img_size ref_imaging img')"
    if t: "img_thumbnail ref_imaging img box r = Inr img'"
      and p: "0 < fst (img_size ref_imaging img)" "0 < snd (img_size ref_imaging img)"
             "0 < fst box" "0 < snd box"
    for img box r img'
  proof -
    obtain x y where box: "box = (x, y)" by (cases box)
    obtain m w h where img: "img = (m, w, h)" by (cases img)
    obtain m' w' h' where img': "img' = (m', w', h')" by (cases img')
    from t have ts: "thumbnail_size (x, y) (w, h) = Inr (w', h')"
      by (auto simp: ref_imaging_def ref_thumbnail_def box img img' split: sum.splits)
    from p have pos: "0 < x" "0 < y" "0 < w" "0 < h"
      by (simp_all add: ref_imaging_def box img)
    from thumbnail_size_ok[OF pos ts] show ?thesis
      by (simp add: fits_within_def aspect_within_rounding_def ref_imaging_def box img img')
  qed
  from a b c d show ?thesis unfolding imaging_contract_def by blast
qed

section \<open>Facts about token issuing\<close>

lemma create_access_token_in_range:
  assumes "0 \<le> now + delta" "now + delta \<le> datetime_max"
  shows "delta \<noteq> 0 \<Longrightarrow> create_access_token S now data (Some delta) =
           Inr (jwt_encode S (AList.update ''exp'' (Time (now + delta)) data) SECRET_KEY ALGORITHM)"
  using assms by (simp add: create_access_token_def truthy_def datetime_add_def)

lemma create_access_token_default:
  assumes "0 \<le> now + timedelta_minutes 15" "now + timedelta_minutes 15 \<le> datetime_max"
  shows "create_access_token S now data None =
           Inr (jwt_encode S (AList.update ''exp'' (Time (now + timedelta_minutes 15)) data) SECRET_KEY ALGORITHM)"
    and "create_access_token S now data (Some 0) =
           Inr (jwt_encode S (AList.update ''exp'' (Time (now + timedelta_minutes 15)) data) SECRET_KEY ALGORITHM)"
  using assms by (simp_all add: create_access_token_def truthy_def datetime_add_def)

lemma create_access_token_Inr:
  "create_access_token S now data (Some delta) = Inr tok \<Longrightarrow> delta \<noteq> 0 \<Longrightarrow>
     tok = jwt_encode S (AList.update ''exp'' (Time (now + delta)) data) SECRET_KEY ALGORITHM"
  by (auto simp: create_access_token_def truthy_def datetime_add_def split: if_splits)

section \<open>Abbreviations for evaluating the examples\<close>

lemmas ex_defs = example_db_def example_image_def alice_def bob_def example_file_def
  bson_image_def bson_user_def bson_datetime_def

lemmas ref_defs = ref_imaging_def ref_open_def ref_save_def ref_thumbnail_def ref_modes_def
  b64_char_def

lemmas pipe_defs = process_image_def process_image_try_def convert_if_necessary_def
  resize_if_too_large_def max_size_def format_name_of_def format_map_def
  thumbnail_size_def round_aspect_def


section \<open>Listing and deleting images\<close>

text \<open>
  C1.  For every caller, \<^verbatim>\<open>get_images\<close> answers with the response views of a list
  \<open>docs\<close> of stored documents.  Among the stored documents that belong to the caller and,
  when the \<^verbatim>\<open>private\<close> parameter is given, carry that visibility flag, \<open>docs\<close> holds
  the newest ones: it is part of them (counting repetitions), it has 100 entries or all of
  them if they are fewer, it is ordered by creation time descending, and every matching
  document left out is at most as new as every document returned.  Hence no returned
  document belongs to a user with a different id.
\<close>

theorem get_images_owner_scoped:
  fixes d :: db and priv :: "bool option" and u :: User
  defines "matching \<equiv> filter (\<lambda>doc. user_id doc = user_ident u \<and>
                                      (\<forall>p. priv = Some p \<longrightarrow> is_private doc = p)) (images d)"
    and "docs \<equiv> find_sorted_desc (images_query (user_ident u) priv) 100 (images d)"
  shows "get_images d priv u = map ImageResponse_of docs
       \<and> mset docs \<subseteq># mset matching
       \<and> length docs = min 100 (length matching)
       \<and> sorted_wrt (\<lambda>a b. created_at a \<ge> created_at b) docs
       \<and> (\<forall>x\<in>#mset matching - mset docs. \<forall>y\<in>set docs. created_at x \<le> created_at y)
       \<and> set docs \<subseteq> set (images d)
       \<and> (\<forall>doc\<in>set docs. user_id doc = user_ident u)
       \<and> (\<forall>v. user_ident v \<noteq> user_ident u \<longrightarrow> (\<forall>doc\<in>set docs. user_id doc \<noteq> user_ident v))
       \<and> (\<forall>p. priv = Some p \<longrightarrow> (\<forall>doc\<in>set docs. is_private doc = p))
       \<and> sorted_wrt (\<lambda>a b. resp_created_at a \<ge> resp_created_at b) (get_images d priv u)
       \<and> length (get_images d priv u) \<le> 100
       \<and> (length matching \<le> 100 \<longrightarrow> mset docs = mset matching)"
proof -
  let ?q = "images_query (user_ident u) priv"
  let ?rest = "drop 100 (sort_key (\<lambda>d. - created_at d) (filter ?q (images d)))"
  have m: "matching = filter ?q (images d)"
    unfolding matching_def by (simp only: images_query_explicit)
  have split: "mset docs + mset ?rest = mset matching"
    unfolding docs_def m by (rule find_sorted_desc_mset)
  have s: "set docs \<subseteq> {doc \<in> set (images d). ?q doc}"
    unfolding docs_def by (rule find_sorted_desc_set)
  have a: "get_images d priv u = map ImageResponse_of docs"
    by (simp add: get_images_def docs_def)
  have sub: "mset docs \<subseteq># mset matching"
    using split by (metis mset_subset_eq_add_left)
  have len: "length docs = min 100 (length matching)"
    unfolding docs_def m by (rule find_sorted_desc_length)
  have f: "sorted_wrt (\<lambda>a b. created_at a \<ge> created_at b) docs"
    unfolding docs_def by (rule find_sorted_desc_sorted)
  have diff: "mset matching - mset docs = mset ?rest"
    using split by (metis add_diff_cancel_left')
  have newest: "\<forall>x\<in>#mset matching - mset docs. \<forall>y\<in>set docs. created_at x \<le> created_at y"
    unfolding diff using find_sorted_desc_newest[of _ 100 ?q "images d"]
    by (auto simp: docs_def)
  have b: "set docs \<subseteq> set (images d)" using s by auto
  have c: "\<forall>doc\<in>set docs. user_id doc = user_ident u"
    using s by (auto simp: images_query_def)
  have c': "\<forall>v. user_ident v \<noteq> user_ident u \<longrightarrow> (\<forall>doc\<in>set docs. user_id doc \<noteq> user_ident v)"
    using c by simp
  have e: "\<forall>p. priv = Some p \<longrightarrow> (\<forall>doc\<in>set docs. is_private doc = p)"
    using s by (auto simp: images_query_def)
  have g: "sorted_wrt (\<lambda>a b. resp_created_at a \<ge> resp_created_at b) (get_images d priv u)"
    using f by (simp add: a sorted_wrt_map ImageResponse_of_def)
  have h: "length (get_images d priv u) \<le> 100" by (simp add: a len)
  have i: "length matching \<le> 100 \<longrightarrow> mset docs = mset matching"
  proof
    assume "length matching \<le> 100"
    then have "?rest = []" by (simp add: m)
    with split show "mset docs = mset matching" by simp
  qed
  from a sub len f newest b c c' e g h i show ?thesis by blast
qed

lemma crowded_all_match:
  "filter (\<lambda>doc. user_id doc = user_ident alice \<and>
                 (\<forall>p. (None :: bool option) = Some p \<longrightarrow> is_private doc = p))
      (images crowded_db) = images crowded_db"
  by (simp add: crowded_db_def example_image_def alice_def)

theorem get_images_owner_scoped_witness:
  "get_images example_db None alice =
     [ImageResponse_of (example_image ''i3'' ''u-alice'' True 30000),
      ImageResponse_of (example_image ''i1'' ''u-alice'' False 10000)]
   \<and> get_images example_db (Some True) alice =
     [ImageResponse_of (example_image ''i3'' ''u-alice'' True 30000)]
   \<and> get_images example_db (Some False) bob =
     [ImageResponse_of (example_image ''i2'' ''u-bob'' False 20000)]
   \<and> length (images crowded_db) = 101
   \<and> length (get_images crowded_db None alice) = 100"
proof -
  have small: "get_images example_db None alice =
     [ImageResponse_of (example_image ''i3'' ''u-alice'' True 30000),
      ImageResponse_of (example_image ''i1'' ''u-alice'' False 10000)]
   \<and> get_images example_db (Some True) alice =
     [ImageResponse_of (example_image ''i3'' ''u-alice'' True 30000)]
   \<and> get_images example_db (Some False) bob =
     [ImageResponse_of (example_image ''i2'' ''u-bob'' False 20000)]"
    using get_images_owner_scoped[where d = example_db and priv = None and u = alice]
          get_images_owner_scoped[where d = example_db and priv = "Some True" and u = alice]
          get_images_owner_scoped[where d = example_db and priv = "Some False" and u = bob]
    by (simp add: get_images_def find_sorted_desc_def images_query_def ex_defs)
  have n: "length (images crowded_db) = 101" by (simp add: crowded_db_def)
  from get_images_owner_scoped[where d = crowded_db and priv = None and u = alice]
  have "get_images crowded_db None alice =
          map ImageResponse_of
            (find_sorted_desc (images_query (user_ident alice) None) 100 (images crowded_db))"
    and "length (find_sorted_desc (images_query (user_ident alice) None) 100 (images crowded_db))
          = min 100 (length (images crowded_db))"
    unfolding crowded_all_match by blast+
  with n have "length (get_images crowded_db None alice) = 100" by simp
  with small n show ?thesis by simp
qed

text \<open>
  C2.  \<^verbatim>\<open>delete_image\<close> removes at most one document, one whose id and owner are the
  given id and the caller.  When no document matches both, the answer is status 404
  "Image not found"; status 403 is never produced.  With unique image ids this is the
  answer when the id exists but belongs to another user, and it is the answer to a repeated
  delete of the same id by the same caller.
\<close>

theorem delete_image_not_found:
  assumes "delete_image d iid u = (res, d')"
  shows "(images d' = images d \<or>
           (\<exists>pre x post. images d = pre @ x # post \<and> image_id x = iid \<and>
               user_id x = user_ident u \<and> images d' = pre @ post))
       \<and> ((\<forall>x\<in>set (images d). \<not> (image_id x = iid \<and> user_id x = user_ident u)) \<longrightarrow>
              res = Inl (HTTPException 404 ''Image not found''))
       \<and> (\<forall>x. res \<noteq> Inl (HTTPException 403 x))
       \<and> (ids_unique d \<longrightarrow> (\<exists>x\<in>set (images d). image_id x = iid \<and> user_id x \<noteq> user_ident u) \<longrightarrow>
              res = Inl (HTTPException 404 ''Image not found'') \<and> d' = d)
       \<and> (ids_unique d \<longrightarrow>
              delete_image d' iid u = (Inl (HTTPException 404 ''Image not found''), d'))"
proof -
  let ?q = "delete_query iid (user_ident u)"
  let ?nf = "Inl (HTTPException 404 ''Image not found'') :: error + string"
  have nomatch: "delete_image e iid u = (?nf, e)" if "\<forall>x\<in>set (images e). \<not> ?q x" for e
    using that by (simp add: delete_image_def delete_one_no_match)
  from delete_image_result[OF assms]
  consider (nf) "res = ?nf" "d' = d" "\<forall>x\<in>set (images d). \<not> ?q x"
    | (ok) pre x post where "res = Inr ''Image deleted successfully''"
        "images d = pre @ x # post" "?q x" "d' = d\<lparr>images := pre @ post\<rparr>"
    by blast
  then show ?thesis
  proof cases
    case nf
    then show ?thesis using nomatch[of d] by simp
  next
    case ok
    have c1: "images d' = images d \<or>
           (\<exists>pre x post. images d = pre @ x # post \<and> image_id x = iid \<and>
               user_id x = user_ident u \<and> images d' = pre @ post)"
      using ok by (auto simp: delete_query_def)
    have c2: "(\<forall>x\<in>set (images d). \<not> (image_id x = iid \<and> user_id x = user_ident u)) \<longrightarrow> res = ?nf"
      using ok by (auto simp: delete_query_def)
    have c3: "\<forall>x. res \<noteq> Inl (HTTPException 403 x)"
      using ok by simp
    have c4: "ids_unique d \<longrightarrow> (\<exists>x\<in>set (images d). image_id x = iid \<and> user_id x \<noteq> user_ident u) \<longrightarrow>
              res = ?nf \<and> d' = d"
    proof (intro impI)
      assume u: "ids_unique d" and e: "\<exists>x\<in>set (images d). image_id x = iid \<and> user_id x \<noteq> user_ident u"
      then obtain y where y: "y \<in> set (images d)" "image_id y = iid" "user_id y \<noteq> user_ident u" by blast
      from u ok(2) have "\<forall>z\<in>set (pre @ post). image_id z \<noteq> image_id x"
        using unique_after_removal by (simp add: ids_unique_def)
      moreover from ok(3) have "image_id x = iid" "user_id x = user_ident u" by (simp_all add: delete_query_def)
      ultimately have "y \<notin> set (pre @ post)" "y \<noteq> x" using y by auto
      with y(1) ok(2) have False by auto
      then show "res = ?nf \<and> d' = d" ..
    qed
    have c5: "ids_unique d \<longrightarrow> delete_image d' iid u = (?nf, d')"
    proof
      assume u: "ids_unique d"
      from u ok(2) have "\<forall>z\<in>set (pre @ post). image_id z \<noteq> image_id x"
        using unique_after_removal by (simp add: ids_unique_def)
      moreover from ok(3) have "image_id x = iid" by (simp add: delete_query_def)
      ultimately have "\<forall>z\<in>set (images d'). \<not> ?q z" using ok(4) by (simp add: delete_query_def)
      then show "delete_image d' iid u = (?nf, d')" by (rule nomatch)
    qed
    from c1 c2 c3 c4 c5 show ?thesis by blast
  qed
qed

theorem delete_image_not_found_witness:
  "delete_image example_db ''i1'' alice =
     (Inr ''Image deleted successfully'',
      example_db\<lparr>images := [example_image ''i2'' ''u-bob'' False 20000,
                             example_image ''i3'' ''u-alice'' True 30000]\<rparr>)
   \<and> ids_unique example_db
   \<and> delete_image (example_db\<lparr>images := [example_image ''i2'' ''u-bob'' False 20000,
                             example_image ''i3'' ''u-alice'' True 30000]\<rparr>) ''i1'' alice =
     (Inl (HTTPException 404 ''Image not found''),
      example_db\<lparr>images := [example_image ''i2'' ''u-bob'' False 20000,
                             example_image ''i3'' ''u-alice'' True 30000]\<rparr>)
   \<and> delete_image example_db ''i2'' alice = (Inl (HTTPException 404 ''Image not found''), example_db)"
proof -
  let ?d1 = "example_db\<lparr>images := [example_image ''i2'' ''u-bob'' False 20000,
                             example_image ''i3'' ''u-alice'' True 30000]\<rparr>"
  have h1: "delete_image example_db ''i1'' alice = (Inr ''Image deleted successfully'', ?d1)"
    by (simp add: delete_image_def delete_query_def ex_defs)
  have u: "ids_unique example_db" by (simp add: ids_unique_def ex_defs)
  have h2: "delete_image example_db ''i2'' alice = (fst (delete_image example_db ''i2'' alice), snd (delete_image example_db ''i2'' alice))"
    by simp
  have ex: "\<exists>x\<in>set (images example_db). image_id x = ''i2'' \<and> user_id x \<noteq> user_ident alice"
    by (simp add: ex_defs)
  from delete_image_not_found[OF h1] u
  have a: "delete_image ?d1 ''i1'' alice = (Inl (HTTPException 404 ''Image not found''), ?d1)" by blast
  from delete_image_not_found[OF h2] u ex
  have b: "fst (delete_image example_db ''i2'' alice) = Inl (HTTPException 404 ''Image not found'')"
    "snd (delete_image example_db ''i2'' alice) = example_db" by blast+
  from b have "delete_image example_db ''i2'' alice = (Inl (HTTPException 404 ''Image not found''), example_db)"
    by (simp add: prod_eq_iff)
  with h1 u a show ?thesis by simp
qed

text \<open>
  C9.  Frame of \<^verbatim>\<open>delete_image\<close>: the users collection is never touched; on success the
  image collection loses exactly one document, which matches the id and the caller, and
  every other document stays in place; on the 404 path the whole store is unchanged.
\<close>

theorem delete_image_frame:
  assumes "delete_image d iid u = (res, d')"
  shows "users d' = users d \<and>
         (case res of
            Inl e \<Rightarrow> e = HTTPException 404 ''Image not found'' \<and> d' = d
          | Inr msg \<Rightarrow>
              (\<exists>pre x post. images d = pre @ x # post \<and> image_id x = iid \<and>
                  user_id x = user_ident u \<and> images d' = pre @ post))"
proof -
  let ?q = "delete_query iid (user_ident u)"
  from delete_image_result[OF assms]
  consider (nf) "res = Inl (HTTPException 404 ''Image not found'')" "d' = d"
    | (ok) pre x post where "res = Inr ''Image deleted successfully''"
        "images d = pre @ x # post" "?q x" "d' = d\<lparr>images := pre @ post\<rparr>"
    by blast
  then show ?thesis
  proof cases
    case nf
    then show ?thesis by simp
  next
    case ok
    from ok(3) have "image_id x = iid" "user_id x = user_ident u"
      by (simp_all add: delete_query_def)
    with ok(2,4) have "\<exists>pre x post. images d = pre @ x # post \<and> image_id x = iid \<and>
        user_id x = user_ident u \<and> images d' = pre @ post"
      by (intro exI[of _ pre] exI[of _ x] exI[of _ post]) simp
    with ok(1,4) show ?thesis by simp
  qed
qed

theorem delete_image_frame_witness:
  "delete_image example_db ''i3'' alice =
     (Inr ''Image deleted successfully'',
      example_db\<lparr>images := [example_image ''i1'' ''u-alice'' False 10000,
                             example_image ''i2'' ''u-bob'' False 20000]\<rparr>)
   \<and> users (snd (delete_image example_db ''i3'' alice)) = [alice, bob]
   \<and> delete_image example_db ''i3'' bob = (Inl (HTTPException 404 ''Image not found''), example_db)"
proof -
  have h1: "delete_image example_db ''i3'' alice =
     (Inr ''Image deleted successfully'',
      example_db\<lparr>images := [example_image ''i1'' ''u-alice'' False 10000,
                             example_image ''i2'' ''u-bob'' False 20000]\<rparr>)"
    by (simp add: delete_image_def delete_query_def ex_defs)
  have h2: "delete_image example_db ''i3'' bob = (Inl (HTTPException 404 ''Image not found''), example_db)"
    by (simp add: delete_image_def delete_query_def ex_defs)
  from delete_image_frame[OF h1] delete_image_frame[OF h2] h1 h2 show ?thesis
    by (simp add: example_db_def)
qed

section \<open>Upload gates\<close>

text \<open>
  C3.  An upload whose declared content type is not one of the five allowed MIME strings
  (compared as exact strings; an absent header included) fails with status 400 and the
  invalid-file-type detail, whatever the library, the payload and its size are, and leaves
  the store as it was.
\<close>

theorem upload_rejects_type_outside_allow_list:
  "file_content_type upl \<notin> Some ` {''image/jpeg'', ''image/jpg'', ''image/png'', ''image/gif'', ''image/webp''}
   \<Longrightarrow> upload_image L d upl cap priv current_user new_id now =
         (Inl (HTTPException 400 ''Invalid file type. Only JPEG, PNG, GIF, and WebP are allowed.''), d)"
  by (auto simp: upload_image_def allowed_types_def InvalidFileType_def split: option.splits)

theorem upload_rejects_type_outside_allow_list_witness:
  "upload_image ref_imaging example_db (example_file (Some ''text/plain'') [0, 0, 10, 0, 10])
       ''c'' False alice ''i4'' 40000 =
     (Inl (HTTPException 400 ''Invalid file type. Only JPEG, PNG, GIF, and WebP are allowed.''), example_db)
   \<and> upload_image ref_imaging example_db (example_file (Some ''IMAGE/PNG'') [0, 0, 10, 0, 10])
       ''c'' False alice ''i4'' 40000 =
     (Inl (HTTPException 400 ''Invalid file type. Only JPEG, PNG, GIF, and WebP are allowed.''), example_db)
   \<and> upload_image ref_imaging example_db (example_file None [0, 0, 10, 0, 10])
       ''c'' False alice ''i4'' 40000 =
     (Inl (HTTPException 400 ''Invalid file type. Only JPEG, PNG, GIF, and WebP are allowed.''), example_db)"
proof -
  have a: "file_content_type (example_file (Some ''text/plain'') [0, 0, 10, 0, 10])
      \<notin> Some ` {''image/jpeg'', ''image/jpg'', ''image/png'', ''image/gif'', ''image/webp''}"
    by (simp add: example_file_def)
  have b: "file_content_type (example_file (Some ''IMAGE/PNG'') [0, 0, 10, 0, 10])
      \<notin> Some ` {''image/jpeg'', ''image/jpg'', ''image/png'', ''image/gif'', ''image/webp''}"
    by (simp add: example_file_def)
  have c: "file_content_type (example_file None [0, 0, 10, 0, 10])
      \<notin> Some ` {''image/jpeg'', ''image/jpg'', ''image/png'', ''image/gif'', ''image/webp''}"
    by (simp add: example_file_def)
  note r = upload_rejects_type_outside_allow_list[where L = ref_imaging and d = example_db and cap = "''c''" and priv = False and current_user = alice and new_id = "''i4''" and now = 40000]
  from r[OF a] r[OF b] r[OF c]
  show ?thesis by simp
qed

text \<open>
  C4.  An upload whose payload is longer than 10 * 1024 * 1024 bytes fails with status
  400 and leaves the store unchanged; when its content type passed the allow-list, the
  failure is the file-too-large one, for every library (so also when the payload would
  decode).  A payload of at most that length passes the gate: the failure is never the
  file-too-large one, and with an allowed content type the outcome is the one of
  \<^verbatim>\<open>process_image\<close>.
\<close>

theorem upload_size_gate:
  "(length (file_bytes upl) > 10 * 1024 * 1024 \<longrightarrow>
      (\<exists>det. upload_image L d upl cap priv u new_id now = (Inl (HTTPException 400 det), d)) \<and>
      (\<forall>ct. file_content_type upl = Some ct \<longrightarrow> ct \<in> set allowed_types \<longrightarrow>
         upload_image L d upl cap priv u new_id now =
           (Inl (HTTPException 400 ''File too large. Maximum size is 10MB.''), d)))
   \<and> (length (file_bytes upl) \<le> 10 * 1024 * 1024 \<longrightarrow>
      fst (upload_image L d upl cap priv u new_id now) \<noteq>
        Inl (HTTPException 400 ''File too large. Maximum size is 10MB.'') \<and>
      (\<forall>ct. file_content_type upl = Some ct \<longrightarrow> ct \<in> set allowed_types \<longrightarrow>
         (\<forall>e. process_image L (file_bytes upl) ct = Inl e \<longrightarrow>
              upload_image L d upl cap priv u new_id now = (Inl e, d)) \<and>
         (\<forall>r. process_image L (file_bytes upl) ct = Inr r \<longrightarrow>
              (\<exists>resp d'. upload_image L d upl cap priv u new_id now = (Inr resp, d')))))"
proof -
  have a: "length (file_bytes upl) > 10 * 1024 * 1024 \<longrightarrow>
      (\<exists>det. upload_image L d upl cap priv u new_id now = (Inl (HTTPException 400 det), d))"
    by (auto simp: upload_image_def FileTooLarge_def InvalidFileType_def split: option.splits)
  have b: "length (file_bytes upl) > 10 * 1024 * 1024 \<longrightarrow>
      (\<forall>ct. file_content_type upl = Some ct \<longrightarrow> ct \<in> set allowed_types \<longrightarrow>
         upload_image L d upl cap priv u new_id now =
           (Inl (HTTPException 400 ''File too large. Maximum size is 10MB.''), d))"
    by (auto simp: upload_image_def FileTooLarge_def)
  have c: "length (file_bytes upl) \<le> 10 * 1024 * 1024 \<longrightarrow>
      fst (upload_image L d upl cap priv u new_id now) \<noteq>
        Inl (HTTPException 400 ''File too large. Maximum size is 10MB.'')"
    by (auto simp: upload_image_def InvalidFileType_def process_image_def Let_def
        split: option.splits sum.splits prod.splits)
  have e: "length (file_bytes upl) \<le> 10 * 1024 * 1024 \<longrightarrow>
      (\<forall>ct. file_content_type upl = Some ct \<longrightarrow> ct \<in> set allowed_types \<longrightarrow>
         (\<forall>e. process_image L (file_bytes upl) ct = Inl e \<longrightarrow>
              upload_image L d upl cap priv u new_id now = (Inl e, d)) \<and>
         (\<forall>r. process_image L (file_bytes upl) ct = Inr r \<longrightarrow>
              (\<exists>resp d'. upload_image L d upl cap priv u new_id now = (Inr resp, d'))))"
    by (auto simp: upload_image_def Let_def split: sum.splits prod.splits)
  from a b c e show ?thesis by blast
qed

theorem upload_size_gate_witness:
  "upload_image ref_imaging example_db
       (example_file (Some ''image/png'') (replicate (10 * 1024 * 1024 + 1) 0))
       ''c'' False alice ''i4'' 40000 =
     (Inl (HTTPException 400 ''File too large. Maximum size is 10MB.''), example_db)
   \<and> fst (upload_image ref_imaging example_db
       (example_file (Some ''image/png'') (replicate (10 * 1024 * 1024) 0))
       ''c'' False alice ''i4'' 40000) \<noteq> Inl (HTTPException 400 ''File too large. Maximum size is 10MB.'')
   \<and> upload_image ref_imaging example_db
       (example_file (Some ''image/png'') [9]) ''c'' False alice ''i4'' 40000 =
     (Inl (HTTPException 400 ''Invalid image file: cannot identify image file''), example_db)"
proof -
  let ?big = "example_file (Some ''image/png'') (replicate (10 * 1024 * 1024 + 1) 0)"
  let ?full = "example_file (Some ''image/png'') (replicate (10 * 1024 * 1024) 0)"
  let ?small = "example_file (Some ''image/png'') [9]"
  have ct: "''image/png'' \<in> set allowed_types" by (simp add: allowed_types_def)
  have f: "file_content_type ?big = Some ''image/png''" "file_content_type ?small = Some ''image/png''"
    by (simp_all add: example_file_def)
  have l: "length (file_bytes ?big) > 10 * 1024 * 1024"
    "length (file_bytes ?full) \<le> 10 * 1024 * 1024"
    "length (file_bytes ?small) \<le> 10 * 1024 * 1024"
    by (simp_all add: example_file_def)
  have p: "process_image ref_imaging (file_bytes ?small) ''image/png'' =
      Inl (HTTPException 400 ''Invalid image file: cannot identify image file'')"
    by (simp add: example_file_def process_image_def process_image_try_def ref_imaging_def ref_open_def)
  note r = upload_size_gate[where L = ref_imaging and d = example_db and cap = "''c''"
      and priv = False and u = alice and new_id = "''i4''" and now = 40000]
  from r[where upl = ?big] f(1) ct l(1)
  have a: "upload_image ref_imaging example_db ?big ''c'' False alice ''i4'' 40000 =
     (Inl (HTTPException 400 ''File too large. Maximum size is 10MB.''), example_db)"
    by blast
  from r[where upl = ?full] l(2)
  have b: "fst (upload_image ref_imaging example_db ?full ''c'' False alice ''i4'' 40000) \<noteq>
     Inl (HTTPException 400 ''File too large. Maximum size is 10MB.'')"
    by blast
  from r[where upl = ?small] f(2) ct l(3) p
  have c: "upload_image ref_imaging example_db ?small ''c'' False alice ''i4'' 40000 =
     (Inl (HTTPException 400 ''Invalid image file: cannot identify image file''), example_db)"
    by blast
  from a b c show ?thesis by blast
qed

section \<open>The normalisation pipeline\<close>

text \<open>
  C5.  Whatever the library does, a failure of \<^verbatim>\<open>process_image\<close> is an
  \<^verbatim>\<open>HTTPException\<close> with status 400 whose detail is "Invalid image file: " followed by
  the message of the exception raised by decoding, converting, resizing or saving; each of
  these four failures is reported in this form, and every failure of \<^verbatim>\<open>upload_image\<close>
  is a status 400 exception.
\<close>

theorem process_image_errors_normalised:
  "(\<forall>e. process_image L data ct = Inl e \<longrightarrow>
       (\<exists>msg. e = HTTPException 400 (''Invalid image file: '' @ msg) \<and>
          process_image_try L data ct = Inl msg))
   \<and> (\<forall>msg. Image_open L data = Inl msg \<longrightarrow>
          process_image L data ct = Inl (HTTPException 400 (''Invalid image file: '' @ msg)))
   \<and> (\<forall>img msg. Image_open L data = Inr img \<longrightarrow> convert_if_necessary L img = Inl msg \<longrightarrow>
          process_image L data ct = Inl (HTTPException 400 (''Invalid image file: '' @ msg)))
   \<and> (\<forall>img img1 msg. Image_open L data = Inr img \<longrightarrow> convert_if_necessary L img = Inr img1 \<longrightarrow>
          resize_if_too_large L img1 = Inl msg \<longrightarrow>
          process_image L data ct = Inl (HTTPException 400 (''Invalid image file: '' @ msg)))
   \<and> (\<forall>img img1 img2 msg. Image_open L data = Inr img \<longrightarrow> convert_if_necessary L img = Inr img1 \<longrightarrow>
          resize_if_too_large L img1 = Inr img2 \<longrightarrow>
          img_save L img2 (format_name_of ct) 85 = Inl msg \<longrightarrow>
          process_image L data ct = Inl (HTTPException 400 (''Invalid image file: '' @ msg)))
   \<and> (\<forall>e. fst (upload_image L d upl cap priv u new_id now) = Inl e \<longrightarrow>
          (\<exists>det. e = HTTPException 400 det))"
proof -
  have a: "\<forall>e. process_image L data ct = Inl e \<longrightarrow>
       (\<exists>msg. e = HTTPException 400 (''Invalid image file: '' @ msg) \<and>
          process_image_try L data ct = Inl msg)" for data ct
    by (auto simp: process_image_def split: sum.splits)
  have b: "\<forall>e. fst (upload_image L d upl cap priv u new_id now) = Inl e \<longrightarrow>
          (\<exists>det. e = HTTPException 400 det)"
  proof -
    have c: "\<exists>det. e = HTTPException 400 det" if "process_image L x y = Inl e" for x y e
      using that by (auto simp: process_image_def split: sum.splits)
    show ?thesis
      by (auto simp: upload_image_def InvalidFileType_def FileTooLarge_def Let_def
          split: option.splits if_splits sum.splits prod.splits dest: c)
  qed
  show ?thesis
    using a[of data ct] b by (simp add: process_image_def process_image_try_def)
qed

theorem process_image_errors_normalised_witness:
  "process_image ref_imaging [9] ''image/png'' =
     Inl (HTTPException 400 ''Invalid image file: cannot identify image file'')
   \<and> Image_open ref_imaging [9] = Inl ''cannot identify image file''
   \<and> fst (upload_image ref_imaging example_db (example_file (Some ''image/png'') [9])
            ''c'' False alice ''i4'' 40000) =
     Inl (HTTPException 400 ''Invalid image file: cannot identify image file'')"
proof -
  have o: "Image_open ref_imaging [9] = Inl ''cannot identify image file''"
    by (simp add: ref_defs)
  have u: "fst (upload_image ref_imaging example_db (example_file (Some ''image/png'') [9])
            ''c'' False alice ''i4'' 40000) =
     Inl (HTTPException 400 ''Invalid image file: cannot identify image file'')"
    by (simp add: upload_image_def allowed_types_def example_file_def pipe_defs ref_defs)
  from process_image_errors_normalised[where L = ref_imaging and data = "[9]" and ct = "''image/png''"
      and d = example_db and upl = "example_file (Some ''image/png'') [9]" and cap = "''c''"
      and priv = False and u = alice and new_id = "''i4''" and now = 40000] o u
  show ?thesis by simp
qed

text \<open>
  C6.  With a library that meets the contract, every successful upload stores the encoding
  of an image that fits within 1920 x 1080.  If the decoded image already fits, the image
  saved is the (converted) original at its own size; otherwise it is the result of
  \<^verbatim>\<open>thumbnail\<close> with the box 1920 x 1080 and the Lanczos filter, and its size keeps the
  aspect ratio of the original within rounding.
\<close>

theorem upload_downscales_within_bounds:
  assumes "imaging_contract L"
    and "upload_image L d upl cap priv u new_id now = (Inr resp, d')"
  shows "\<exists>ct img img1 img2 processed.
           file_content_type upl = Some ct \<and>
           Image_open L (file_bytes upl) = Inr img \<and> convert_if_necessary L img = Inr img1 \<and>
           img_save L img2 (format_name_of ct) 85 = Inr processed \<and>
           resp_image_data resp = b64encode L processed \<and>
           fits_within (img_size L img2) (1920, 1080) \<and>
           (fits_within (img_size L img) (1920, 1080) \<longrightarrow>
              img2 = img1 \<and> img_size L img2 = img_size L img) \<and>
           (\<not> fits_within (img_size L img) (1920, 1080) \<longrightarrow>
              img_thumbnail L img1 (1920, 1080) LANCZOS = Inr img2 \<and>
              aspect_within_rounding (img_size L img) (img_size L img2))"
proof -
  from upload_image_Inr[OF assms(2)] obtain ct s n where
    u: "file_content_type upl = Some ct" "process_image L (file_bytes upl) ct = Inr (s, n)"
       "resp_image_data resp = s"
    by (auto simp: ImageResponse_of_def)
  from process_image_Inr[OF u(2)] obtain img img1 img2 processed where
    p: "Image_open L (file_bytes upl) = Inr img" "convert_if_necessary L img = Inr img1"
       "resize_if_too_large L img1 = Inr img2"
       "img_save L img2 (format_name_of ct) 85 = Inr processed"
       "s = b64encode L processed"
    by blast
  from assms(1) p(1) have pos: "0 < fst (img_size L img)" "0 < snd (img_size L img)"
    unfolding imaging_contract_def by blast+
  from assms(1) have conv: "\<And>i m i'. img_convert L i m = Inr i' \<Longrightarrow> img_size L i' = img_size L i"
    unfolding imaging_contract_def by blast
  from p(2) have s1: "img_size L img1 = img_size L img"
    by (auto simp: convert_if_necessary_def dest: conv split: if_splits)
  show ?thesis
  proof (cases "fits_within (img_size L img) (1920, 1080)")
    case True
    with s1 p(3) have "img2 = img1"
      by (auto simp: resize_if_too_large_def fits_within_def max_size_def split: if_splits)
    with True s1 u p show ?thesis by auto
  next
    case False
    with s1 p(3) have t: "img_thumbnail L img1 (1920, 1080) LANCZOS = Inr img2"
      by (auto simp: resize_if_too_large_def fits_within_def max_size_def split: if_splits)
    from assms(1) have "fits_within (img_size L img2) (1920, 1080) \<and>
        aspect_within_rounding (img_size L img1) (img_size L img2)"
      if "img_thumbnail L img1 (1920, 1080) LANCZOS = Inr img2"
         "0 < fst (img_size L img1)" "0 < snd (img_size L img1)"
      using that unfolding imaging_contract_def by force
    from this[OF t] pos s1 have "fits_within (img_size L img2) (1920, 1080)"
      "aspect_within_rounding (img_size L img) (img_size L img2)" by simp_all
    with False t u p show ?thesis by auto
  qed
qed

theorem upload_downscales_within_bounds_witness:
  "upload_image ref_imaging example_db (example_file (Some ''image/jpeg'') [0, 15, 160, 11, 184])
       ''c'' False alice ''i4'' 40000 =
     (Inr \<lparr> resp_id = ''i4'', resp_filename = ''a.png'', resp_caption = ''c'',
            resp_is_private = False, resp_image_data = ''AAWgBDg='',
            resp_content_type = ''image/jpeg'', resp_file_size = 5, resp_created_at = 40000 \<rparr>,
      example_db\<lparr>images := images example_db @
         [\<lparr> image_id = ''i4'', user_id = ''u-alice'', filename = ''a.png'', caption = ''c'',
            is_private = False, image_data = ''AAWgBDg='', content_type = ''image/jpeg'',
            file_size = 5, created_at = 40000 \<rparr>]\<rparr>)
   \<and> Image_open ref_imaging [0, 15, 160, 11, 184] = Inr (''RGB'', 4000, 3000)
   \<and> img_thumbnail ref_imaging (''RGB'', 4000, 3000) (1920, 1080) LANCZOS = Inr (''RGB'', 1440, 1080)
   \<and> img_save ref_imaging (''RGB'', 1440, 1080) ''JPEG'' 85 = Inr [0, 5, 160, 4, 56]
   \<and> b64encode ref_imaging [0, 5, 160, 4, 56] = ''AAWgBDg=''
   \<and> fits_within (1440, 1080) (1920, 1080)
   \<and> aspect_within_rounding (4000, 3000) (1440, 1080)"
proof -
  have h: "upload_image ref_imaging example_db (example_file (Some ''image/jpeg'') [0, 15, 160, 11, 184])
       ''c'' False alice ''i4'' 40000 =
     (Inr \<lparr> resp_id = ''i4'', resp_filename = ''a.png'', resp_caption = ''c'',
            resp_is_private = False, resp_image_data = ''AAWgBDg='',
            resp_content_type = ''image/jpeg'', resp_file_size = 5, resp_created_at = 40000 \<rparr>,
      example_db\<lparr>images := images example_db @
         [\<lparr> image_id = ''i4'', user_id = ''u-alice'', filename = ''a.png'', caption = ''c'',
            is_private = False, image_data = ''AAWgBDg='', content_type = ''image/jpeg'',
            file_size = 5, created_at = 40000 \<rparr>]\<rparr>)"
    by (simp add: upload_image_def allowed_types_def insert_one_def ImageResponse_of_def
        ex_defs pipe_defs ref_defs)
  have r: "Image_open ref_imaging [0, 15, 160, 11, 184] = Inr (''RGB'', 4000, 3000)"
    "img_thumbnail ref_imaging (''RGB'', 4000, 3000) (1920, 1080) LANCZOS = Inr (''RGB'', 1440, 1080)"
    "img_save ref_imaging (''RGB'', 1440, 1080) ''JPEG'' 85 = Inr [0, 5, 160, 4, 56]"
    "b64encode ref_imaging [0, 5, 160, 4, 56] = ''AAWgBDg=''"
    "fits_within (1440, 1080) (1920, 1080)"
    "aspect_within_rounding (4000, 3000) (1440, 1080)"
    by (simp_all add: ref_defs pipe_defs fits_within_def aspect_within_rounding_def)
  from upload_downscales_within_bounds[OF ref_imaging_contract h] h r show ?thesis by simp
qed

text \<open>
  C7, as stated, fails: an image in mode \<^verbatim>\<open>LA\<close> (grey with alpha) has an alpha channel,
  but it is not converted; it is saved in mode \<^verbatim>\<open>LA\<close>.
\<close>

theorem alpha_or_palette_not_converted_counterexample:
  "has_alpha_or_palette (img_mode ref_imaging (''LA'', 10, 10))
   \<and> Image_open ref_imaging [4, 0, 10, 0, 10] = Inr (''LA'', 10, 10)
   \<and> convert_if_necessary ref_imaging (''LA'', 10, 10) = Inr (''LA'', 10, 10)
   \<and> convert_if_necessary ref_imaging (''LA'', 10, 10)
        \<noteq> img_convert ref_imaging (''LA'', 10, 10) ''RGB''
   \<and> process_image ref_imaging [4, 0, 10, 0, 10] ''image/png'' = Inr (''BAAKAAo='', 5)
   \<and> b64encode ref_imaging [4, 0, 10, 0, 10] = ''BAAKAAo=''"
  by (simp add: has_alpha_or_palette_def pipe_defs ref_defs)

text \<open>
  C7, amended.  With a library that meets the contract, a decoded image whose mode is
  exactly \<^verbatim>\<open>RGBA\<close> or \<^verbatim>\<open>P\<close> is converted to \<^verbatim>\<open>RGB\<close>, and the image saved has
  mode \<^verbatim>\<open>RGB\<close>; an image in any other mode is not converted, and the image saved has
  the mode of the decoded one.
\<close>

theorem process_image_converts_rgba_and_p:
  assumes "imaging_contract L" and "process_image L data ct = Inr (s, n)"
  shows "\<exists>img img1 img2 processed.
           Image_open L data = Inr img \<and> convert_if_necessary L img = Inr img1 \<and>
           resize_if_too_large L img1 = Inr img2 \<and>
           img_save L img2 (format_name_of ct) 85 = Inr processed \<and>
           s = b64encode L processed \<and> n = length processed \<and>
           (img_mode L img \<in> {''RGBA'', ''P''} \<longrightarrow>
              img_convert L img ''RGB'' = Inr img1 \<and> img_mode L img2 = ''RGB'') \<and>
           (img_mode L img \<notin> {''RGBA'', ''P''} \<longrightarrow>
              img1 = img \<and> img_mode L img2 = img_mode L img)"
proof -
  from process_image_Inr[OF assms(2)] obtain img img1 img2 processed where
    p: "Image_open L data = Inr img" "convert_if_necessary L img = Inr img1"
       "resize_if_too_large L img1 = Inr img2"
       "img_save L img2 (format_name_of ct) 85 = Inr processed"
       "s = b64encode L processed" "n = length processed"
    by blast
  from assms(1) have conv: "\<And>i m i'. img_convert L i m = Inr i' \<Longrightarrow> img_mode L i' = m"
    and thumb: "\<And>i box r i'. img_thumbnail L i box r = Inr i' \<Longrightarrow> img_mode L i' = img_mode L i"
    unfolding imaging_contract_def by blast+
  from p(3) have m2: "img_mode L img2 = img_mode L img1"
    by (auto simp: resize_if_too_large_def dest: thumb split: if_splits)
  have c1: "img_mode L img \<in> {''RGBA'', ''P''} \<longrightarrow>
              img_convert L img ''RGB'' = Inr img1 \<and> img_mode L img2 = ''RGB''"
    using p(2) m2 by (auto simp: convert_if_necessary_def dest: conv)
  have c2: "img_mode L img \<notin> {''RGBA'', ''P''} \<longrightarrow> img1 = img \<and> img_mode L img2 = img_mode L img"
    using p(2) m2 by (auto simp: convert_if_necessary_def)
  from p c1 c2 show ?thesis by blast
qed

theorem process_image_converts_rgba_and_p_witness:
  "process_image ref_imaging [1, 0, 10, 0, 10] ''image/png'' = Inr (''AAAKAAo='', 5)
   \<and> Image_open ref_imaging [1, 0, 10, 0, 10] = Inr (''RGBA'', 10, 10)
   \<and> img_save ref_imaging (''RGB'', 10, 10) ''PNG'' 85 = Inr [0, 0, 10, 0, 10]
   \<and> b64encode ref_imaging [0, 0, 10, 0, 10] = ''AAAKAAo=''
   \<and> process_image ref_imaging [3, 0, 10, 0, 10] ''image/png'' = Inr (''AwAKAAo='', 5)
   \<and> Image_open ref_imaging [3, 0, 10, 0, 10] = Inr (''L'', 10, 10)
   \<and> img_save ref_imaging (''L'', 10, 10) ''PNG'' 85 = Inr [3, 0, 10, 0, 10]
   \<and> b64encode ref_imaging [3, 0, 10, 0, 10] = ''AwAKAAo=''"
proof -
  have h1: "process_image ref_imaging [1, 0, 10, 0, 10] ''image/png'' = Inr (''AAAKAAo='', 5)"
    and h2: "process_image ref_imaging [3, 0, 10, 0, 10] ''image/png'' = Inr (''AwAKAAo='', 5)"
    by (simp_all add: pipe_defs ref_defs)
  have r: "Image_open ref_imaging [1, 0, 10, 0, 10] = Inr (''RGBA'', 10, 10)"
    "img_save ref_imaging (''RGB'', 10, 10) ''PNG'' 85 = Inr [0, 0, 10, 0, 10]"
    "b64encode ref_imaging [0, 0, 10, 0, 10] = ''AAAKAAo=''"
    "Image_open ref_imaging [3, 0, 10, 0, 10] = Inr (''L'', 10, 10)"
    "img_save ref_imaging (''L'', 10, 10) ''PNG'' 85 = Inr [3, 0, 10, 0, 10]"
    "b64encode ref_imaging [3, 0, 10, 0, 10] = ''AwAKAAo=''"
    by (simp_all add: ref_defs)
  from process_image_converts_rgba_and_p[OF ref_imaging_contract h1]
       process_image_converts_rgba_and_p[OF ref_imaging_contract h2] h1 h2 r
  show ?thesis by simp
qed



section \<open>Token expiry\<close>

text \<open>
  C8.  The code departs from the claim at one input: a supplied ttl of \<^verbatim>\<open>timedelta(0)\<close>
  is false in \<^verbatim>\<open>if expires_delta:\<close>, so the token expires at now + 15 minutes and not
  at now + 0, while a ttl of one microsecond gives now + 1.
\<close>

theorem create_access_token_zero_ttl:
  "create_access_token ref_security 63900000000000000 [(''sub'', Str ''alice'')] (Some 0)
     = Inr [(''sub'', Str ''alice''), (''exp'', Time (63900000000000000 + timedelta_minutes 15))]
   \<and> create_access_token ref_security 63900000000000000 [(''sub'', Str ''alice'')] (Some 0)
     \<noteq> Inr [(''sub'', Str ''alice''), (''exp'', Time (63900000000000000 + 0))]
   \<and> create_access_token ref_security 63900000000000000 [(''sub'', Str ''alice'')] (Some 1)
     = Inr [(''sub'', Str ''alice''), (''exp'', Time (63900000000000000 + 1))]"
  by (simp add: create_access_token_def truthy_def datetime_add_def datetime_max_def
      timedelta_minutes_def ref_security_def)

text \<open>
  The other paths of token issuing.  With a non-zero ttl the expiry is now + ttl, without
  a ttl it is now + 15 minutes, and the tokens of a successful \<^verbatim>\<open>register\<close> and
  \<^verbatim>\<open>login\<close> carry the username as subject and expire at now + 30 minutes; a sum
  outside \<^verbatim>\<open>datetime.min .. datetime.max\<close> raises \<^verbatim>\<open>OverflowError\<close> instead.
\<close>

lemma create_access_token_other_paths:
  "(\<forall>delta. delta \<noteq> 0 \<longrightarrow> 0 \<le> now + delta \<longrightarrow> now + delta \<le> datetime_max \<longrightarrow>
      create_access_token S now data (Some delta) =
        Inr (jwt_encode S (AList.update ''exp'' (Time (now + delta)) data) SECRET_KEY ALGORITHM))
   \<and> (0 \<le> now + timedelta_minutes 15 \<longrightarrow> now + timedelta_minutes 15 \<le> datetime_max \<longrightarrow>
      create_access_token S now data None =
        Inr (jwt_encode S (AList.update ''exp'' (Time (now + timedelta_minutes 15)) data) SECRET_KEY ALGORITHM) \<and>
      create_access_token S now data (Some 0) =
        Inr (jwt_encode S (AList.update ''exp'' (Time (now + timedelta_minutes 15)) data) SECRET_KEY ALGORITHM))
   \<and> (\<forall>tok d'. register S d user_data new_id created now = (Inr tok, d') \<longrightarrow>
        access_token tok =
          jwt_encode S [(''sub'', Str (uc_username user_data)),
                        (''exp'', Time (now + timedelta_minutes 30))] SECRET_KEY ALGORITHM)
   \<and> (\<forall>tok. login S d credentials now = Inr tok \<longrightarrow>
        access_token tok =
          jwt_encode S [(''sub'', Str (ul_username credentials)),
                        (''exp'', Time (now + timedelta_minutes 30))] SECRET_KEY ALGORITHM)"
proof -
  have nz: "timedelta_minutes 30 \<noteq> 0" by (simp add: timedelta_minutes_def)
  have a: "\<forall>delta. delta \<noteq> 0 \<longrightarrow> 0 \<le> now + delta \<longrightarrow> now + delta \<le> datetime_max \<longrightarrow>
      create_access_token S now data (Some delta) =
        Inr (jwt_encode S (AList.update ''exp'' (Time (now + delta)) data) SECRET_KEY ALGORITHM)"
    using create_access_token_in_range by blast
  have b: "0 \<le> now + timedelta_minutes 15 \<longrightarrow> now + timedelta_minutes 15 \<le> datetime_max \<longrightarrow>
      create_access_token S now data None =
        Inr (jwt_encode S (AList.update ''exp'' (Time (now + timedelta_minutes 15)) data) SECRET_KEY ALGORITHM) \<and>
      create_access_token S now data (Some 0) =
        Inr (jwt_encode S (AList.update ''exp'' (Time (now + timedelta_minutes 15)) data) SECRET_KEY ALGORITHM)"
    using create_access_token_default by blast
  have c: "access_token tok =
          jwt_encode S [(''sub'', Str (uc_username user_data)),
                        (''exp'', Time (now + timedelta_minutes 30))] SECRET_KEY ALGORITHM"
    if "register S d user_data new_id created now = (Inr tok, d')" for tok d'
    using that create_access_token_Inr[OF _ nz, of S now "[(''sub'', Str (uc_username user_data))]"]
    by (auto simp: register_def Let_def ACCESS_TOKEN_EXPIRE_MINUTES_def split: option.splits sum.splits)
  have e: "access_token tok =
          jwt_encode S [(''sub'', Str (ul_username credentials)),
                        (''exp'', Time (now + timedelta_minutes 30))] SECRET_KEY ALGORITHM"
    if h: "login S d credentials now = Inr tok" for tok
  proof -
    from h obtain user where
      f: "find_one (\<lambda>u. username u = ul_username credentials) (users d) = Some user"
      by (auto simp: login_def split: option.splits)
    from find_one_SomeD[OF f] have un: "username user = ul_username credentials" by simp
    from h f obtain t where
      t: "create_access_token S now [(''sub'', Str (username user))] (Some (timedelta_minutes 30)) = Inr t"
         "access_token tok = t"
      by (auto simp: login_def Let_def ACCESS_TOKEN_EXPIRE_MINUTES_def split: if_splits sum.splits)
    from create_access_token_Inr[OF t(1) nz] t(2) un show ?thesis by simp
  qed
  from a b c e show ?thesis by blast
qed

lemma create_access_token_other_paths_example:
  "create_access_token ref_security 63900000000000000 [(''sub'', Str ''alice'')]
       (Some (timedelta_minutes 30)) =
     Inr [(''sub'', Str ''alice''), (''exp'', Time 63900001800000000)]
   \<and> create_access_token ref_security 63900000000000000 [(''sub'', Str ''alice'')] None =
     Inr [(''sub'', Str ''alice''), (''exp'', Time 63900000900000000)]
   \<and> fst (register ref_security example_db
       \<lparr> uc_username = ''carol'', uc_email = ''carol@x.com'', uc_password = ''pw'' \<rparr>
       ''u-carol'' 63900000000000000 63900000000000005) =
     Inr \<lparr> access_token = [(''sub'', Str ''carol''), (''exp'', Time 63900001800000005)],
           token_type = ''bearer'',
           token_user = \<lparr> ur_id = ''u-carol'', ur_username = ''carol'', ur_email = ''carol@x.com'',
                          ur_created_at = 63900000000000000 \<rparr> \<rparr>
   \<and> login ref_security example_db \<lparr> ul_username = ''alice'', ul_password = ''Pw123!'' \<rparr>
       63900000000000000 =
     Inr \<lparr> access_token = [(''sub'', Str ''alice''), (''exp'', Time 63900001800000000)],
           token_type = ''bearer'',
           token_user = \<lparr> ur_id = ''u-alice'', ur_username = ''alice'', ur_email = ''alice@x.com'',
                          ur_created_at = 63900000000000000 \<rparr> \<rparr>"
proof -
  let ?uc = "\<lparr> uc_username = ''carol'', uc_email = ''carol@x.com'', uc_password = ''pw'' \<rparr>"
  let ?ul = "\<lparr> ul_username = ''alice'', ul_password = ''Pw123!'' \<rparr>"
  note tok_defs = create_access_token_def truthy_def datetime_add_def datetime_max_def
    timedelta_minutes_def ref_security_def ACCESS_TOKEN_EXPIRE_MINUTES_def
  have r: "fst (register ref_security example_db ?uc ''u-carol'' 63900000000000000 63900000000000005) =
     Inr \<lparr> access_token = [(''sub'', Str ''carol''), (''exp'', Time 63900001800000005)],
           token_type = ''bearer'',
           token_user = \<lparr> ur_id = ''u-carol'', ur_username = ''carol'', ur_email = ''carol@x.com'',
                          ur_created_at = 63900000000000000 \<rparr> \<rparr>"
    by (simp add: register_def find_one_def insert_one_def UserResponse_of_def ex_defs tok_defs)
  have l: "login ref_security example_db ?ul 63900000000000000 =
     Inr \<lparr> access_token = [(''sub'', Str ''alice''), (''exp'', Time 63900001800000000)],
           token_type = ''bearer'',
           token_user = \<lparr> ur_id = ''u-alice'', ur_username = ''alice'', ur_email = ''alice@x.com'',
                          ur_created_at = 63900000000000000 \<rparr> \<rparr>"
    by (simp add: login_def find_one_def UserResponse_of_def ex_defs tok_defs)
  have n: "timedelta_minutes 30 \<noteq> 0"
    "0 \<le> 63900000000000000 + timedelta_minutes 30"
    "63900000000000000 + timedelta_minutes 30 \<le> datetime_max"
    "0 \<le> 63900000000000000 + timedelta_minutes 15"
    "63900000000000000 + timedelta_minutes 15 \<le> datetime_max"
    by (simp_all add: timedelta_minutes_def datetime_max_def)
  from create_access_token_other_paths[where S = ref_security and now = 63900000000000000
      and data = "[(''sub'', Str ''alice'')]" and d = example_db and user_data = ?uc
      and new_id = "''u-carol''" and created = 63900000000000000 and credentials = ?ul] n r l
  show ?thesis
    by (simp add: ref_security_def timedelta_minutes_def)
qed

end
